theory Spec2Isabelle
  imports Complex_Main "HOL-Library.Sublist"
begin

section \<open>The meeting intelligence worker\<close>

text \<open>
  A shallow embedding of the business-intelligence worker of
  \<^verbatim>\<open>src/app/api/chat/route.ts\<close>: project association, insight extraction, the
  per-transcript sync pipeline, the sync endpoint, the markdown renderer and the project
  dashboard. JavaScript values are typed as the worker reads them; what the platform decides
  (the clock, the model's reply, whether a storage call rejects) is an explicit input.
\<close>

subsection \<open>Strings and numbers of the runtime\<close>

definition nl :: string where
  "nl = [CHR 0x0A]"

text \<open>\<^verbatim>\<open>String(n)\<close> for a non-negative integer: its decimal digits.\<close>

function dec_nat :: "nat \<Rightarrow> string" where
  "dec_nat n = (if n < 10 then [char_of (48 + n)] else dec_nat (n div 10) @ [char_of (48 + n mod 10)])"
  by pat_completeness auto
termination
  by (relation "measure (\<lambda>n. n)") auto

declare dec_nat.simps [simp del]

definition dec_int :: "int \<Rightarrow> string" where
  "dec_int i = (if i < 0 then ''-'' @ dec_nat (nat (- i)) else dec_nat (nat i))"

text \<open>\<^verbatim>\<open>s.padStart(2, '0')\<close>.\<close>

definition padStart2 :: "string \<Rightarrow> string" where
  "padStart2 s = replicate (2 - length s) CHR ''0'' @ s"

text \<open>\<^verbatim>\<open>Math.round\<close> rounds halves towards positive infinity; \<^verbatim>\<open>%\<close> takes the sign of
  the dividend. Numbers are exact rationals.\<close>

definition Math_round :: "rat \<Rightarrow> int" where
  "Math_round x = \<lfloor>x + 1 / 2\<rfloor>"

definition Math_floor :: "rat \<Rightarrow> int" where
  "Math_floor x = \<lfloor>x\<rfloor>"

definition js_rem :: "rat \<Rightarrow> rat \<Rightarrow> rat" where
  "js_rem a b = a - b * of_int (if a / b < 0 then \<lceil>a / b\<rceil> else \<lfloor>a / b\<rfloor>)"

text \<open>\<^verbatim>\<open>xs.join(sep)\<close>.\<close>

fun join :: "string \<Rightarrow> string list \<Rightarrow> string" where
  "join sep [] = []"
| "join sep [x] = x"
| "join sep (x # y # ys) = x @ sep @ join sep (y # ys)"

text \<open>Case folding of the ASCII letters, as SQLite's \<^verbatim>\<open>LOWER\<close> does it.\<close>

definition lower_char :: "char \<Rightarrow> char" where
  "lower_char c =
     (let n = (of_char c :: nat) in if 65 \<le> n \<and> n \<le> 90 then char_of (n + 32) else c)"

definition upper_char :: "char \<Rightarrow> char" where
  "upper_char c =
     (let n = (of_char c :: nat) in if 97 \<le> n \<and> n \<le> 122 then char_of (n - 32) else c)"

definition LOWER :: "string \<Rightarrow> string" where
  "LOWER s = map lower_char s"


definition toUpperCase :: "string \<Rightarrow> string" where
  "toUpperCase s = map upper_char s"

text \<open>
  SQLite's \<^verbatim>\<open>text LIKE pattern\<close>: \<^verbatim>\<open>%\<close> stands for any run of characters, \<^verbatim>\<open>_\<close> for any
  single character, every other character for itself up to ASCII case; there is no escape
  character unless the statement names one. First argument the pattern, second the text.
\<close>

fun LIKE :: "string \<Rightarrow> string \<Rightarrow> bool" where
  "LIKE [] s = (s = [])"
| "LIKE (p # ps) s =
     (if p = CHR ''%'' then
        (LIKE ps s \<or> (case s of [] \<Rightarrow> False | c # cs \<Rightarrow> LIKE (p # ps) cs))
      else
        (case s of [] \<Rightarrow> False
         | c # cs \<Rightarrow> (p = CHR ''_'' \<or> lower_char p = lower_char c) \<and> LIKE ps cs))"

text \<open>\<^verbatim>\<open>ORDER BY key DESC\<close>, rows of equal key in table order, and \<^verbatim>\<open>LIMIT n\<close> as
  \<^const>\<open>take\<close>.\<close>

definition order_by_desc :: "('a \<Rightarrow> 'k::linorder) \<Rightarrow> 'a list \<Rightarrow> 'a list" where
  "order_by_desc key xs = rev (sort_key key (rev xs))"

text \<open>\<^verbatim>\<open>v || d\<close> for a nullable string: the empty string is falsy as well.\<close>

definition truthy :: "string option \<Rightarrow> bool" where
  "truthy v = (case v of None \<Rightarrow> False | Some s \<Rightarrow> s \<noteq> [])"

definition or_else :: "string option \<Rightarrow> string \<Rightarrow> string" where
  "or_else v d = (case v of None \<Rightarrow> d | Some s \<Rightarrow> if s = [] then d else s)"

subsection \<open>Project association\<close>

record project =
  project_id :: string
  name :: "string option"
  autorag_project_tag :: "string option"
  updated_at :: nat

text \<open>
  One disjunct of the \<^verbatim>\<open>WHERE\<close> clause,
  \<^verbatim>\<open>LOWER(?) LIKE LOWER('%' || col || '%')\<close>: a \<^verbatim>\<open>NULL\<close> column makes the comparison
  \<^verbatim>\<open>NULL\<close>, which selects no row.
\<close>

definition like_param :: "string \<Rightarrow> string option \<Rightarrow> bool" where
  "like_param title col =
     (case col of None \<Rightarrow> False
      | Some v \<Rightarrow> LIKE (LOWER (''%'' @ v @ ''%'')) (LOWER title))"

definition where_matches :: "string \<Rightarrow> project \<Rightarrow> bool" where
  "where_matches title p \<longleftrightarrow>
     like_param title (name p) \<or> like_param title (autorag_project_tag p)"

definition associateTranscriptWithProject :: "project list \<Rightarrow> string \<Rightarrow> string option" where
  "associateTranscriptWithProject db title =
     (let results = take 1 (order_by_desc updated_at (filter (where_matches title) db))
      in case results of [] \<Rightarrow> None | r # _ \<Rightarrow> Some (project_id r))"


subsection \<open>Transcripts and insights\<close>

text \<open>A transcript as the GraphQL query of the sync endpoint selects it; the attendee and
  sentence lists may be \<^verbatim>\<open>null\<close>, and so may a sentence's start time.\<close>

record attendee =
  displayName :: string
  email :: string

record sentence =
  sentence_text :: string
  speaker_name :: string
  start_time :: "rat option"

record transcript =
  transcript_id :: string
  title :: string
  date :: int
  duration :: rat
  meeting_attendees :: "attendee list option"
  sentences :: "sentence list option"

text \<open>What \<^verbatim>\<open>JSON.parse\<close> can return.\<close>

datatype json =
    JNull
  | JBool bool
  | JNum rat
  | JStr string
  | JArr "json list"
  | JObj "(string \<times> json) list"

text \<open>The insight object the prompt asks the model for, as the pipeline reads its fields.\<close>

record risk =
  risk_title :: string
  severity :: string

record insight_item =
  insight_type :: string
  insight_title :: string
  description :: string
  requiresAction :: bool
  confidence :: rat

record insight =
  summary :: string
  meetingType :: string
  actionItems :: "string list"
  decisions :: "string list"
  risks :: "risk list"
  insights :: "insight_item list"
  followUpRequired :: bool

definition asString :: "json \<Rightarrow> string option" where
  "asString j = (case j of JStr s \<Rightarrow> Some s | _ \<Rightarrow> None)"

definition asBool :: "json \<Rightarrow> bool option" where
  "asBool j = (case j of JBool b \<Rightarrow> Some b | _ \<Rightarrow> None)"

definition asNum :: "json \<Rightarrow> rat option" where
  "asNum j = (case j of JNum r \<Rightarrow> Some r | _ \<Rightarrow> None)"

definition asArray :: "json \<Rightarrow> json list option" where
  "asArray j = (case j of JArr xs \<Rightarrow> Some xs | _ \<Rightarrow> None)"

definition asObject :: "json \<Rightarrow> (string \<times> json) list option" where
  "asObject j = (case j of JObj kvs \<Rightarrow> Some kvs | _ \<Rightarrow> None)"

text \<open>A property of a parsed object, read at the type the pipeline uses it at.\<close>

definition field :: "(json \<Rightarrow> 'a option) \<Rightarrow> (string \<times> json) list \<Rightarrow> string \<Rightarrow> 'a option" where
  "field rd kvs k = Option.bind (map_of kvs k) rd"

definition asList :: "(json \<Rightarrow> 'a option) \<Rightarrow> json \<Rightarrow> 'a list option" where
  "asList rd j = Option.bind (asArray j) (\<lambda>xs. those (map rd xs))"

definition asRisk :: "json \<Rightarrow> risk option" where
  "asRisk j =
     Option.bind (asObject j) (\<lambda>kvs.
     Option.bind (field asString kvs ''title'') (\<lambda>t.
     Option.bind (field asString kvs ''severity'') (\<lambda>s.
       Some \<lparr>risk_title = t, severity = s\<rparr>)))"

definition asInsightItem :: "json \<Rightarrow> insight_item option" where
  "asInsightItem j =
     Option.bind (asObject j) (\<lambda>kvs.
     Option.bind (field asString kvs ''type'') (\<lambda>ty.
     Option.bind (field asString kvs ''title'') (\<lambda>t.
     Option.bind (field asString kvs ''description'') (\<lambda>d.
     Option.bind (field asBool kvs ''requiresAction'') (\<lambda>r.
     Option.bind (field asNum kvs ''confidence'') (\<lambda>c.
       Some \<lparr>insight_type = ty, insight_title = t, description = d,
             requiresAction = r, confidence = c\<rparr>))))))"

text \<open>
  The parsed value seen as an insight: an object whose seven fields have the shapes of the
  prompt's schema. The pipeline reads exactly these fields; a value of any other shape has
  no such reading.
\<close>

definition asInsight :: "json \<Rightarrow> insight option" where
  "asInsight j =
     Option.bind (asObject j) (\<lambda>kvs.
     Option.bind (field asString kvs ''summary'') (\<lambda>s.
     Option.bind (field asString kvs ''meetingType'') (\<lambda>m.
     Option.bind (field (asList asString) kvs ''actionItems'') (\<lambda>a.
     Option.bind (field (asList asString) kvs ''decisions'') (\<lambda>d.
     Option.bind (field (asList asRisk) kvs ''risks'') (\<lambda>r.
     Option.bind (field (asList asInsightItem) kvs ''insights'') (\<lambda>i.
     Option.bind (field asBool kvs ''followUpRequired'') (\<lambda>f.
       Some \<lparr>summary = s, meetingType = m, actionItems = a, decisions = d,
             risks = r, insights = i, followUpRequired = f\<rparr>))))))))"

text \<open>The claim's structural validity: all seven fields present, a string summary and
  meeting type, four lists and a boolean flag.\<close>

definition structurallyValid :: "json \<Rightarrow> bool" where
  "structurallyValid j =
     (case j of
        JObj kvs \<Rightarrow>
          field asString kvs ''summary'' \<noteq> None \<and>
          field asString kvs ''meetingType'' \<noteq> None \<and>
          field asArray kvs ''actionItems'' \<noteq> None \<and>
          field asArray kvs ''decisions'' \<noteq> None \<and>
          field asArray kvs ''risks'' \<noteq> None \<and>
          field asArray kvs ''insights'' \<noteq> None \<and>
          field asBool kvs ''followUpRequired'' \<noteq> None
      | _ \<Rightarrow> False)"

subsection \<open>Insight extraction\<close>

text \<open>
  One call of the text-generation binding: it rejects, or it replies with a text, given
  together with what \<^verbatim>\<open>JSON.parse\<close> makes of that text (\<^const>\<open>None\<close> when it throws
  a syntax error). The prompt is built by string interpolation alone and the model is
  opaque, so the reply is an input of the model.
\<close>

datatype ai_reply =
    AiRejects
  | AiReplies string "json option"

definition fallbackInsight :: "transcript \<Rightarrow> json" where
  "fallbackInsight transcript =
     JObj [(''summary'', JStr (''Meeting: '' @ title transcript)),
           (''meetingType'', JStr ''project''),
           (''actionItems'', JArr []),
           (''decisions'', JArr []),
           (''risks'', JArr []),
           (''insights'', JArr []),
           (''followUpRequired'', JBool False)]"

text \<open>The \<^verbatim>\<open>try\<close> block returns \<^verbatim>\<open>JSON.parse(response.response)\<close> as it is; the
  \<^verbatim>\<open>catch\<close> block returns the fallback object.\<close>

definition generateBusinessInsights :: "transcript \<Rightarrow> ai_reply \<Rightarrow> json" where
  "generateBusinessInsights transcript ai =
     (case ai of
        AiRejects \<Rightarrow> fallbackInsight transcript
      | AiReplies text None \<Rightarrow> fallbackInsight transcript
      | AiReplies text (Some parsed) \<Rightarrow> parsed)"

subsection \<open>The durable store and the blob store\<close>

text \<open>
  The tables the worker's statements name, with the columns those statements bind or read.
  A column holding a JSON text holds the value the text denotes; \<^const>\<open>None\<close> is
  \<^verbatim>\<open>NULL\<close>. The \<^verbatim>\<open>meetings\<close> table is keyed by its \<^verbatim>\<open>id\<close> column, which is what
  \<^verbatim>\<open>INSERT OR REPLACE\<close> resolves conflicts on. \<^verbatim>\<open>extracted_at\<close> is not bound by the
  insert: the database fills it in.
\<close>

record meeting_row =
  meeting_id :: string
  meeting_title :: string
  meeting_date :: int
  meeting_duration :: int
  participants :: "string list"
  fireflies_id :: string
  meeting_summary :: string
  meeting_project_id :: "string option"
  meeting_type :: string
  action_items_json :: "string list option"
  key_decisions_json :: "string list option"
  ai_risk_flags :: "risk list option"
  follow_up_required :: bool
  created_at :: string

record insight_row =
  row_id :: string
  row_project_id :: string
  row_insight_type :: string
  row_title :: string
  row_description :: string
  source_meeting_id :: string
  requires_action :: bool
  confidence_score :: rat
  extracted_at :: nat

text \<open>Modelled from the spec: the \<^verbatim>\<open>project_dashboard\<close> view is not in the sources. A
  row has the columns the handlers read, typed as the spec's Project entity has them: an id,
  a name, a status and a timeline classification that are never \<^verbatim>\<open>NULL\<close>, a margin and
  an estimated value.\<close>

record dashboard_row =
  pd_id :: string
  pd_name :: string
  pd_status :: string
  pd_timeline_status :: string
  pd_profit_margin_percent :: int
  pd_estimated_value :: "rat option"

record task_row =
  task_project_id :: string
  task_status :: string
  estimated_hours :: rat
  actual_hours :: rat

record store =
  projects :: "project list"
  meetings :: "meeting_row list"
  project_insights :: "insight_row list"
  project_dashboard :: "dashboard_row list"
  tasks :: "task_row list"
  documents :: "string \<rightharpoonup> string"

subsection \<open>The pipeline of one transcript\<close>

text \<open>
  What the platform deals one transcript's pipeline: whether the association query, the
  meeting write, the \<open>k\<close>-th insight insert and the blob put reject, the model's reply, the
  clock readings (\<^verbatim>\<open>new Date().toISOString()\<close> at the meeting write and in the renderer,
  \<^verbatim>\<open>Date.now()\<close> at the \<open>k\<close>-th insert), the database's \<^verbatim>\<open>extracted_at\<close> for the \<open>k\<close>-th
  insert, and the runtime's \<^verbatim>\<open>toLocaleDateString\<close>.
\<close>

record fate =
  association_rejects :: bool
  ai :: ai_reply
  created_at_now :: string
  meeting_write_rejects :: bool
  insight_write_rejects :: "nat \<Rightarrow> bool"
  Date_now :: "nat \<Rightarrow> nat"
  extracted_at_default :: "nat \<Rightarrow> nat"
  toLocaleDateString :: "int \<Rightarrow> string"
  generated_now :: string
  put_rejects :: bool

datatype rejection =
    AssociationRejected
  | InsightUnreadable
  | MeetingWriteRejected
  | InsightWriteRejected nat
  | PublishRejected

datatype settled = Fulfilled string | Rejected rejection

definition meetingRow :: "transcript \<Rightarrow> insight \<Rightarrow> string option \<Rightarrow> string \<Rightarrow> meeting_row" where
  "meetingRow transcript businessInsights projectId now =
     \<lparr>meeting_id = transcript_id transcript,
      meeting_title = title transcript,
      meeting_date = date transcript,
      meeting_duration = Math_round (duration transcript / 60),
      participants =
        (case meeting_attendees transcript of None \<Rightarrow> [] | Some as \<Rightarrow> map displayName as),
      fireflies_id = transcript_id transcript,
      meeting_summary = summary businessInsights,
      meeting_project_id = projectId,
      meeting_type = meetingType businessInsights,
      action_items_json = Some (actionItems businessInsights),
      key_decisions_json = Some (decisions businessInsights),
      ai_risk_flags = Some (risks businessInsights),
      follow_up_required = followUpRequired businessInsights,
      created_at = now\<rparr>"

text \<open>Modelled from the spec: the schema of the \<^verbatim>\<open>meetings\<close> table is not in the
  sources; the spec's data model makes the transcript id the row's idempotency key. So
  \<^verbatim>\<open>INSERT OR REPLACE\<close> resolves conflicts on \<^verbatim>\<open>id\<close>: the rows in conflict go, the
  new row comes.\<close>

definition insertOrReplace :: "meeting_row \<Rightarrow> meeting_row list \<Rightarrow> meeting_row list" where
  "insertOrReplace row rows = filter (\<lambda>r. meeting_id r \<noteq> meeting_id row) rows @ [row]"

definition insightId :: "string \<Rightarrow> nat \<Rightarrow> string" where
  "insightId tid now = ''insight_'' @ tid @ ''_'' @ dec_nat now"

definition insightRow :: "fate \<Rightarrow> transcript \<Rightarrow> string \<Rightarrow> nat \<Rightarrow> insight_item \<Rightarrow> insight_row" where
  "insightRow f transcript projectId k i =
     \<lparr>row_id = insightId (transcript_id transcript) (Date_now f k),
      row_project_id = projectId,
      row_insight_type = insight_type i,
      row_title = insight_title i,
      row_description = description i,
      source_meeting_id = transcript_id transcript,
      requires_action = requiresAction i,
      confidence_score = confidence i,
      extracted_at = extracted_at_default f k\<rparr>"

text \<open>The \<^verbatim>\<open>for\<close> loop over \<^verbatim>\<open>businessInsights.insights\<close>: one awaited \<^verbatim>\<open>INSERT\<close> per
  item; the first one that rejects ends the loop and the rows before it stay.\<close>

fun insertInsights ::
  "fate \<Rightarrow> transcript \<Rightarrow> string \<Rightarrow> nat \<Rightarrow> insight_item list \<Rightarrow> insight_row list
    \<Rightarrow> rejection option \<times> insight_row list" where
  "insertInsights f transcript projectId k [] rows = (None, rows)"
| "insertInsights f transcript projectId k (i # is) rows =
     (if insight_write_rejects f k then (Some (InsightWriteRejected k), rows)
      else insertInsights f transcript projectId (Suc k) is
             (rows @ [insightRow f transcript projectId k i]))"

subsection \<open>The markdown document\<close>

definition timestamp :: "sentence \<Rightarrow> string" where
  "timestamp s =
     (case start_time s of
        None \<Rightarrow> []
      | Some t \<Rightarrow>
          if t = 0 then []
          else ''['' @ dec_int (Math_floor (t / 60)) @ '':'' @
               padStart2 (dec_int (Math_floor (js_rem t 60))) @ '']'')"

definition renderSentence :: "sentence \<Rightarrow> string" where
  "renderSentence s = timestamp s @ '' **'' @ speaker_name s @ '':** '' @ sentence_text s"

definition numbered :: "string list \<Rightarrow> string list" where
  "numbered items = map (\<lambda>(i, item). dec_nat (i + 1) @ ''. '' @ item) (enumerate 0 items)"

definition renderRisk :: "risk \<Rightarrow> string" where
  "renderRisk r = ''- **'' @ toUpperCase (severity r) @ '':** '' @ risk_title r"

definition renderTranscript :: "sentence list option \<Rightarrow> string" where
  "renderTranscript ss =
     (case ss of
        None \<Rightarrow> ''No transcript available.''
      | Some xs \<Rightarrow>
          (let joined = join (nl @ nl) (map renderSentence xs)
           in if joined = [] then ''No transcript available.'' else joined))"

text \<open>The template literal, line by line, in its three parts: the front matter, the body
  and the footer. Every line after the first carries the two blanks the source has in front
  of it. \<open>localeDate\<close> is the runtime's \<^verbatim>\<open>toLocaleDateString\<close>, \<open>now\<close> is
  \<^verbatim>\<open>new Date().toISOString()\<close> at the call.\<close>

definition frontMatter :: "transcript \<Rightarrow> insight \<Rightarrow> string option \<Rightarrow> string" where
  "frontMatter transcript ins projectId =
     ''---'' @ nl @
     ''  title: '' @ title transcript @ nl @
     ''  project_id: '' @ or_else projectId ''unknown'' @ nl @
     ''  meeting_type: '' @ meetingType ins @ nl @
     ''  date: '' @ dec_int (date transcript) @ nl @
     ''  duration: '' @ dec_int (Math_round (duration transcript / 60)) @ '' minutes'' @ nl @
     ''  insights_generated: '' @ dec_nat (length (insights ins)) @ nl @
     ''  action_items: '' @ dec_nat (length (actionItems ins)) @ nl @
     ''  risks_identified: '' @ dec_nat (length (risks ins)) @ nl @
     ''  ---'' @ nl"

definition documentBody :: "(int \<Rightarrow> string) \<Rightarrow> transcript \<Rightarrow> insight \<Rightarrow> string option \<Rightarrow> string" where
  "documentBody localeDate transcript ins projectId =
     ''  '' @ nl @
     ''  # '' @ title transcript @ nl @
     ''  '' @ nl @
     ''  **Project:** '' @ or_else projectId ''Not Associated'' @ nl @
     ''  **Date:** '' @ localeDate (date transcript) @ nl @
     ''  **Type:** '' @ meetingType ins @ nl @
     ''  **AI Summary:** '' @ summary ins @ nl @
     ''  '' @ nl @
     ''  ## Business Intelligence'' @ nl @
     ''  '' @ nl @
     ''  ### Action Items'' @ nl @
     ''  '' @ join nl (numbered (actionItems ins)) @ nl @
     ''  '' @ nl @
     ''  ### Key Decisions'' @ nl @
     ''  '' @ join nl (numbered (decisions ins)) @ nl @
     ''  '' @ nl @
     ''  ### Risk Flags'' @ nl @
     ''  '' @ join nl (map renderRisk (risks ins)) @ nl @
     ''  '' @ nl @
     ''  ## Meeting Transcript'' @ nl @
     ''  '' @ nl @
     ''  '' @ renderTranscript (sentences transcript) @ nl"

definition footer :: "string \<Rightarrow> string" where
  "footer now =
     ''  '' @ nl @
     ''  ---'' @ nl @
     ''  **Generated:** '' @ now @ nl @
     ''  **Source:** Fireflies.ai Enhanced with Business Intelligence'' @ nl @
     ''  ''"

definition createEnhancedMarkdown ::
  "(int \<Rightarrow> string) \<Rightarrow> string \<Rightarrow> transcript \<Rightarrow> insight \<Rightarrow> string option \<Rightarrow> string" where
  "createEnhancedMarkdown localeDate now transcript ins projectId =
     frontMatter transcript ins projectId @
     documentBody localeDate transcript ins projectId @
     footer now"

definition documentKey :: "transcript \<Rightarrow> string" where
  "documentKey transcript = ''meetings/meeting-'' @ transcript_id transcript @ ''.md''"

text \<open>\<^verbatim>\<open>bucket.put(key, content)\<close> when it does not reject: the key holds the content,
  whatever it held before.\<close>

definition uploadToR2 :: "(string \<rightharpoonup> string) \<Rightarrow> string \<Rightarrow> string \<Rightarrow> (string \<rightharpoonup> string)" where
  "uploadToR2 bucket key content = bucket(key \<mapsto> content)"

subsection \<open>One transcript, then the batch\<close>

text \<open>
  The callback mapped over the transcripts. Each awaited call that rejects ends the
  callback with a rejected promise and leaves what was written before in place. The
  callback reads the reply at the types of the prompt's schema; a parsed reply that has no
  such reading is given the outcome of one with a field missing, a rejection before the
  first write (a property read on \<^verbatim>\<open>null\<close> throws, and the statement refuses an
  \<^verbatim>\<open>undefined\<close> parameter).
  The insight rows are written only for a project id that is neither \<^verbatim>\<open>null\<close> nor empty.
\<close>

definition recordMeeting :: "fate \<Rightarrow> transcript \<Rightarrow> insight \<Rightarrow> string option \<Rightarrow> store \<Rightarrow> store" where
  "recordMeeting f transcript businessInsights projectId s =
     s\<lparr>meetings :=
         insertOrReplace (meetingRow transcript businessInsights projectId (created_at_now f))
           (meetings s)\<rparr>"

definition recordInsights ::
  "fate \<Rightarrow> transcript \<Rightarrow> insight \<Rightarrow> string option \<Rightarrow> store \<Rightarrow> rejection option \<times> store" where
  "recordInsights f transcript businessInsights projectId s =
     (case projectId of
        None \<Rightarrow> (None, s)
      | Some pid \<Rightarrow>
          (if pid \<noteq> [] \<and> length (insights businessInsights) > 0 then
             (let (failed, rows) =
                    insertInsights f transcript pid 0 (insights businessInsights)
                      (project_insights s)
              in (failed, s\<lparr>project_insights := rows\<rparr>))
           else (None, s)))"

definition publish ::
  "fate \<Rightarrow> transcript \<Rightarrow> insight \<Rightarrow> string option \<Rightarrow> store \<Rightarrow> settled \<times> store" where
  "publish f transcript businessInsights projectId s =
     (let markdownContent =
            createEnhancedMarkdown (toLocaleDateString f) (generated_now f)
              transcript businessInsights projectId
      in if put_rejects f then (Rejected PublishRejected, s)
         else (Fulfilled (transcript_id transcript),
               s\<lparr>documents :=
                   uploadToR2 (documents s) (documentKey transcript) markdownContent\<rparr>))"

definition syncTranscript :: "fate \<Rightarrow> transcript \<Rightarrow> store \<Rightarrow> settled \<times> store" where
  "syncTranscript f transcript s =
     (if association_rejects f then (Rejected AssociationRejected, s)
      else
        (let projectId = associateTranscriptWithProject (projects s) (title transcript) in
         (case asInsight (generateBusinessInsights transcript (ai f)) of
            None \<Rightarrow> (Rejected InsightUnreadable, s)
          | Some businessInsights \<Rightarrow>
              (if meeting_write_rejects f then (Rejected MeetingWriteRejected, s)
               else
                 (let (failed, s2) =
                        recordInsights f transcript businessInsights projectId
                          (recordMeeting f transcript businessInsights projectId s)
                  in (case failed of
                        None \<Rightarrow> publish f transcript businessInsights projectId s2
                      | Some r \<Rightarrow> (Rejected r, s2)))))))"

text \<open>\<^verbatim>\<open>Promise.allSettled\<close> over the mapped callbacks: one outcome per transcript, in
  order, whatever the outcomes of the others. The callbacks are run one after the other.\<close>

fun settleAll :: "(transcript \<times> fate) list \<Rightarrow> store \<Rightarrow> settled list \<times> store" where
  "settleAll [] s = ([], s)"
| "settleAll ((transcript, f) # rest) s =
     (let (r, s1) = syncTranscript f transcript s;
          (rs, s2) = settleAll rest s1
      in (r # rs, s2))"

definition is_fulfilled :: "settled \<Rightarrow> bool" where
  "is_fulfilled r = (case r of Fulfilled _ \<Rightarrow> True | Rejected _ \<Rightarrow> False)"

subsection \<open>Responses\<close>

record meeting_view =
  view_title :: string
  view_date :: int
  view_summary :: string
  view_action_items_json :: "string list option"
  view_ai_risk_flags :: "risk list option"
  action_items :: "string list"
  view_risks :: "risk list"

record task_stat =
  stat_status :: string
  stat_count :: nat
  stat_estimated_hours :: rat
  stat_actual_hours :: rat

record dashboard =
  dashboard_project :: dashboard_row
  dashboard_insights :: "insight_row list"
  recentMeetings :: "meeting_view list"
  taskBreakdown :: "task_stat list"
  executiveSummary :: string

text \<open>The bodies the two endpoints serialise: a plain text, the sync result
  \<^verbatim>\<open>{count, message, insightsGenerated}\<close>, the sync failure \<^verbatim>\<open>{error, details, count}\<close>,
  an \<^verbatim>\<open>{error}\<close> object, and the dashboard.\<close>

datatype body =
    TextBody string
  | SyncResult nat string nat
  | SyncFailure string string nat
  | ErrorBody string
  | DashboardBody dashboard

record response =
  status :: nat
  body :: body

subsection \<open>The sync endpoint\<close>

text \<open>
  What the transcript source answers: anything thrown while fetching, decoding or reading
  the reply, with its message, or the reply's \<^verbatim>\<open>data.transcripts\<close> (\<^const>\<open>None\<close> when
  it is missing or \<^verbatim>\<open>null\<close>), each transcript with the fate of its pipeline.
\<close>

datatype source_reply =
    SourceThrows string
  | SourceData "(transcript \<times> fate) list option"

text \<open>The index signal awaits its \<^verbatim>\<open>fetch\<close> inside its own \<^verbatim>\<open>try\<close>: a rejection is
  logged and nothing is returned either way.\<close>

definition triggerAutoRAGSync :: "bool \<Rightarrow> unit" where
  "triggerAutoRAGSync fetch_rejects = ()"

definition syncFailure :: "string \<Rightarrow> response" where
  "syncFailure message =
     \<lparr>status = 200, body = SyncFailure ''Failed to sync meetings'' message 0\<rparr>"

definition handleEnhancedMeetingSync ::
  "string \<Rightarrow> source_reply \<Rightarrow> bool \<Rightarrow> store \<Rightarrow> response \<times> store" where
  "handleEnhancedMeetingSync method source index_rejects s =
     (if method \<noteq> ''POST'' then (\<lparr>status = 405, body = TextBody ''Method not allowed''\<rparr>, s)
      else
        (case source of
           SourceThrows message \<Rightarrow> (syncFailure message, s)
         | SourceData None \<Rightarrow> (syncFailure ''No transcripts found'', s)
         | SourceData (Some batch) \<Rightarrow>
             (let (syncResults, s1) = settleAll batch s;
                  successfulUploads = length (filter is_fulfilled syncResults);
                  u = triggerAutoRAGSync index_rejects
              in (\<lparr>status = 200,
                   body = SyncResult successfulUploads
                            (''Successfully synced '' @ dec_nat successfulUploads @
                             '' meetings with business intelligence'')
                            (length syncResults * 2)\<rparr>, s1))))"

text \<open>A pipeline completes when none of its awaited calls rejects and the model's reply
  reads as an insight.\<close>

definition writes_insights :: "string option \<Rightarrow> insight \<Rightarrow> bool" where
  "writes_insights projectId businessInsights \<longleftrightarrow>
     truthy projectId \<and> length (insights businessInsights) > 0"

definition completes :: "store \<Rightarrow> transcript \<times> fate \<Rightarrow> bool" where
  "completes s tf =
     (case tf of (transcript, f) \<Rightarrow>
        \<not> association_rejects f \<and>
        (case asInsight (generateBusinessInsights transcript (ai f)) of
           None \<Rightarrow> False
         | Some businessInsights \<Rightarrow>
             \<not> meeting_write_rejects f \<and>
             (writes_insights
                (associateTranscriptWithProject (projects s) (title transcript))
                businessInsights \<longrightarrow>
              (\<forall>k \<in> set [0..<length (insights businessInsights)].
                 \<not> insight_write_rejects f k)) \<and>
             \<not> put_rejects f))"



text \<open>A pipeline reaches its meeting write when the association query does not reject,
  the reply reads as an insight and the write itself does not reject.\<close>

definition reaches_write :: "transcript \<times> fate \<Rightarrow> bool" where
  "reaches_write tf =
     (case tf of (transcript, f) \<Rightarrow>
        \<not> association_rejects f \<and>
        asInsight (generateBusinessInsights transcript (ai f)) \<noteq> None \<and>
        \<not> meeting_write_rejects f)"


subsection \<open>The project dashboard\<close>








subsection \<open>Sample data\<close>

definition example_projects :: "project list" where
  "example_projects =
     [\<lparr>project_id = ''p1'', name = Some ''Q_1'', autorag_project_tag = None, updated_at = 5\<rparr>,
      \<lparr>project_id = ''p2'', name = Some ''Goodwill'', autorag_project_tag = Some ''gw'',
       updated_at = 7\<rparr>,
      \<lparr>project_id = ''p3'', name = Some ''Good'', autorag_project_tag = None, updated_at = 9\<rparr>]"

definition example_transcript :: transcript where
  "example_transcript =
     \<lparr>transcript_id = ''t1'', title = ''Goodwill Weekly Sync'', date = 1700,
      duration = 1800,
      meeting_attendees = Some [\<lparr>displayName = ''Ann'', email = ''ann@example.com''\<rparr>],
      sentences = Some [\<lparr>sentence_text = ''Hello'', speaker_name = ''Ann'', start_time = Some 0\<rparr>,
                        \<lparr>sentence_text = ''Budget is fine'', speaker_name = ''Bob'',
                         start_time = Some 75\<rparr>]\<rparr>"

definition example_insight :: insight where
  "example_insight =
     \<lparr>summary = ''Weekly sync'', meetingType = ''project'', actionItems = [''Send report''],
      decisions = [], risks = [\<lparr>risk_title = ''Delay'', severity = ''high''\<rparr>],
      insights = [], followUpRequired = False\<rparr>"

definition example_locale :: "int \<Rightarrow> string" where
  "example_locale d = ''1/1/1970''"

definition empty_store :: store where
  "empty_store =
     \<lparr>projects = [], meetings = [], project_insights = [], project_dashboard = [],
      tasks = [], documents = Map.empty\<rparr>"

text \<open>A model reply with two insights and its parse; the fates of four pipelines: one
  where nothing rejects, a later one, one whose clock reads the same millisecond at every
  insert, and one whose meeting write rejects.\<close>

definition example_reply_text :: string where
  \<open>example_reply_text =
     ''{"summary":"Weekly sync","meetingType":"project","actionItems":["Send report"],'' @
     ''"decisions":[],"risks":[{"title":"Delay","severity":"high"}],'' @
     ''"insights":[{"type":"risk","title":"Vendor delay","description":"Steel is late",'' @
     ''"requiresAction":true,"confidence":0.8},'' @
     ''{"type":"opportunity","title":"Early finish","description":"Crew is ahead",'' @
     ''"requiresAction":false,"confidence":0.6}],"followUpRequired":true}''\<close>

definition example_reply_json :: json where
  "example_reply_json =
     JObj [(''summary'', JStr ''Weekly sync''),
           (''meetingType'', JStr ''project''),
           (''actionItems'', JArr [JStr ''Send report'']),
           (''decisions'', JArr []),
           (''risks'', JArr [JObj [(''title'', JStr ''Delay''), (''severity'', JStr ''high'')]]),
           (''insights'',
              JArr [JObj [(''type'', JStr ''risk''), (''title'', JStr ''Vendor delay''),
                          (''description'', JStr ''Steel is late''),
                          (''requiresAction'', JBool True), (''confidence'', JNum (4 / 5))],
                    JObj [(''type'', JStr ''opportunity''), (''title'', JStr ''Early finish''),
                          (''description'', JStr ''Crew is ahead''),
                          (''requiresAction'', JBool False), (''confidence'', JNum (3 / 5))]]),
           (''followUpRequired'', JBool True)]"


definition example_fate :: fate where
  "example_fate =
     \<lparr>association_rejects = False,
      ai = AiReplies example_reply_text (Some example_reply_json),
      created_at_now = ''2024-01-01T00:00:01.000Z'',
      meeting_write_rejects = False,
      insight_write_rejects = (\<lambda>k. False),
      Date_now = (\<lambda>k. 1000 + k),
      extracted_at_default = (\<lambda>k. 1),
      toLocaleDateString = example_locale,
      generated_now = ''2024-01-01T00:00:01.002Z'',
      put_rejects = False\<rparr>"


definition frozen_clock_fate :: fate where
  "frozen_clock_fate = example_fate\<lparr>Date_now := (\<lambda>k. 1000)\<rparr>"



definition example_store :: store where
  "example_store = empty_store\<lparr>projects := example_projects\<rparr>"



text \<open>The success shape of the sync endpoint's body.\<close>

definition is_success :: "body \<Rightarrow> bool" where
  "is_success b = (case b of SyncResult c m i \<Rightarrow> True | _ \<Rightarrow> False)"

section \<open>Properties\<close>

subsection \<open>Arithmetic of the timestamps\<close>

lemma floor_div_60:
  fixes t :: rat
  shows "\<lfloor>t / 60\<rfloor> = \<lfloor>t\<rfloor> div 60"
proof (rule floor_unique)
  let ?k = "\<lfloor>t\<rfloor>"
  have lo: "of_int ?k \<le> t" and hi: "t < of_int ?k + 1" by linarith+
  have "60 * (?k div 60) \<le> ?k" by presburger
  then have "(of_int (60 * (?k div 60)) :: rat) \<le> of_int ?k"
    by (simp only: of_int_le_iff)
  then have a: "60 * (of_int (?k div 60) :: rat) \<le> of_int ?k" by simp
  from a lo have "60 * (of_int (?k div 60) :: rat) \<le> t" by (rule order_trans)
  then show "of_int (?k div 60) \<le> t / 60" by simp
  have "?k + 1 \<le> 60 * (?k div 60) + 60" by presburger
  then have "(of_int (?k + 1) :: rat) \<le> of_int (60 * (?k div 60) + 60)"
    by (simp only: of_int_le_iff)
  then have b: "(of_int ?k :: rat) + 1 \<le> 60 * of_int (?k div 60) + 60" by simp
  from hi b have "t < 60 * (of_int (?k div 60) :: rat) + 60" by (rule less_le_trans)
  then show "t / 60 < of_int (?k div 60) + 1" by simp
qed

lemma floor_js_rem_60:
  fixes t :: rat
  assumes "0 < t"
  shows "Math_floor (js_rem t 60) = \<lfloor>t\<rfloor> mod 60"
proof -
  have "\<not> t / 60 < 0" using assms by simp
  then have "js_rem t 60 = t - of_int (60 * \<lfloor>t / 60\<rfloor>)"
    by (simp add: js_rem_def)
  then have "Math_floor (js_rem t 60) = \<lfloor>t\<rfloor> - 60 * \<lfloor>t / 60\<rfloor>"
    unfolding Math_floor_def by (simp only: floor_diff_of_int)
  also have "\<dots> = \<lfloor>t\<rfloor> - 60 * (\<lfloor>t\<rfloor> div 60)" by (simp only: floor_div_60)
  also have "\<dots> = \<lfloor>t\<rfloor> mod 60" by (simp add: minus_mult_div_eq_mod)
  finally show ?thesis .
qed

lemma length_dec_nat_small: "n < 100 \<Longrightarrow> length (dec_nat n) = (if n < 10 then 1 else 2)"
  by (subst dec_nat.simps, subst dec_nat.simps) auto

lemma length_padStart2_dec: "0 \<le> i \<Longrightarrow> i < 100 \<Longrightarrow> length (padStart2 (dec_int i)) = 2"
  by (simp add: padStart2_def dec_int_def length_dec_nat_small)

subsection \<open>Project association\<close>

















subsection \<open>Insight extraction\<close>

text \<open>
  Claim C3, as the code has it. When the model call rejects or its text is not JSON, the
  extractor returns the fallback object, which is structurally valid: the meeting title as
  summary, meeting type \<^verbatim>\<open>project\<close>, empty lists and no follow-up. When the text parses, it
  returns the parsed value as it is, whatever its shape. It returns a value on every reply.
\<close>

theorem extractor_fallback_or_parsed:
  "generateBusinessInsights t AiRejects = fallbackInsight t \<and>
   generateBusinessInsights t (AiReplies txt None) = fallbackInsight t \<and>
   generateBusinessInsights t (AiReplies txt (Some j)) = j \<and>
   structurallyValid (fallbackInsight t) \<and>
   asInsight (fallbackInsight t) =
     Some \<lparr>summary = ''Meeting: '' @ title t, meetingType = ''project'', actionItems = [],
           decisions = [], risks = [], insights = [], followUpRequired = False\<rparr>"
  by (simp add: generateBusinessInsights_def fallbackInsight_def structurallyValid_def
      asInsight_def field_def asObject_def asString_def asBool_def asList_def asArray_def)

text \<open>Claim C3 as stated fails: the model replies \<^verbatim>\<open>{}\<close>, which parses, and the extractor
  returns the empty object, which has none of the seven fields.\<close>

theorem extractor_unvalidated_counterexample:
  "\<not> structurallyValid (generateBusinessInsights example_transcript (AiReplies ''{}'' (Some (JObj []))))"
  by (simp add: generateBusinessInsights_def structurallyValid_def field_def)

subsection \<open>The markdown document\<close>

lemma footer_inject: "footer n1 = footer n2 \<longleftrightarrow> n1 = n2"
  by (simp add: footer_def)

text \<open>
  Claim C4, as the code has it. For the same meeting, insight and project id (and the same
  runtime locale), two renderings are byte-identical exactly when the clock reads the same
  at both calls: the footer's \<^verbatim>\<open>**Generated:**\<close> line carries the time of the call, and
  nothing else in the document depends on it.
\<close>

theorem markdown_equal_iff_same_clock:
  "createEnhancedMarkdown loc n1 t i p = createEnhancedMarkdown loc n2 t i p \<longleftrightarrow> n1 = n2"
  by (simp add: createEnhancedMarkdown_def footer_inject)

text \<open>Claim C4 as stated fails: the same inputs rendered one millisecond apart give two
  different documents.\<close>

theorem markdown_clock_counterexample:
  "createEnhancedMarkdown example_locale ''2024-01-01T00:00:00.000Z'' example_transcript
     example_insight (Some ''p1'') \<noteq>
   createEnhancedMarkdown example_locale ''2024-01-01T00:00:00.001Z'' example_transcript
     example_insight (Some ''p1'')"
  by (simp add: createEnhancedMarkdown_def footer_def)

text \<open>
  Claim C10. A sentence whose start time is exactly 0 is rendered without a timestamp (the
  line starts with the blank that follows the empty prefix). A sentence with a positive
  start time \<open>t\<close> is prefixed with \<^verbatim>\<open>[m:ss]\<close>, where \<open>m\<close> is the floor of \<open>t / 60\<close> and
  \<open>ss\<close> is the whole seconds of \<open>t\<close> modulo 60, padded with a zero to two digits.
\<close>

theorem sentence_timestamp:
  "(start_time s = Some 0 \<longrightarrow>
      renderSentence s = '' **'' @ speaker_name s @ '':** '' @ sentence_text s) \<and>
   (\<forall>t. start_time s = Some t \<and> 0 < t \<longrightarrow>
      renderSentence s =
        ''['' @ dec_int \<lfloor>t / 60\<rfloor> @ '':'' @ padStart2 (dec_int (\<lfloor>t\<rfloor> mod 60)) @ '']'' @
        '' **'' @ speaker_name s @ '':** '' @ sentence_text s \<and>
      length (padStart2 (dec_int (\<lfloor>t\<rfloor> mod 60))) = 2)"
proof (intro conjI allI impI)
  assume "start_time s = Some 0"
  then show "renderSentence s = '' **'' @ speaker_name s @ '':** '' @ sentence_text s"
    by (simp add: renderSentence_def timestamp_def)
next
  fix t assume a: "start_time s = Some t \<and> 0 < t"
  then have "timestamp s =
      ''['' @ dec_int \<lfloor>t / 60\<rfloor> @ '':'' @ padStart2 (dec_int (\<lfloor>t\<rfloor> mod 60)) @ '']''"
    by (simp add: timestamp_def floor_js_rem_60 Math_floor_def [of "t / 60"])
  then show "renderSentence s =
        ''['' @ dec_int \<lfloor>t / 60\<rfloor> @ '':'' @ padStart2 (dec_int (\<lfloor>t\<rfloor> mod 60)) @ '']'' @
        '' **'' @ speaker_name s @ '':** '' @ sentence_text s"
    by (simp add: renderSentence_def)
next
  fix t :: rat
  show "length (padStart2 (dec_int (\<lfloor>t\<rfloor> mod 60))) = 2"
    by (rule length_padStart2_dec) simp_all
qed

text \<open>The theorem at two sentences: start time 0, and start time 3725 seconds.\<close>

theorem sentence_timestamp_witness:
  "renderSentence \<lparr>sentence_text = ''Hello'', speaker_name = ''Ann'', start_time = Some 0\<rparr> =
     '' **Ann:** Hello'' \<and>
   renderSentence \<lparr>sentence_text = ''Budget is fine'', speaker_name = ''Bob'',
                   start_time = Some 3725\<rparr> = ''[62:05] **Bob:** Budget is fine''"
proof -
  have d: "dec_int 62 = ''62''" "dec_int 5 = ''5''" by code_simp+
  have f: "\<lfloor>745 / 12 :: rat\<rfloor> = 62"
    by (rule floor_unique) simp_all
  show ?thesis
    using sentence_timestamp [of "\<lparr>sentence_text = ''Hello'', speaker_name = ''Ann'', start_time = Some 0\<rparr>"]
      sentence_timestamp [of "\<lparr>sentence_text = ''Budget is fine'', speaker_name = ''Bob'',
                   start_time = Some 3725\<rparr>"]
    by (simp add: d f padStart2_def)
qed

subsection \<open>The sync endpoint\<close>

text \<open>
  Claim C5. When anything thrown at batch level reaches the handler's \<^verbatim>\<open>catch\<close>, the
  endpoint answers with status 200 and the body \<^verbatim>\<open>{error, details, count: 0}\<close>, the details
  being the exception's message. Every \<^verbatim>\<open>POST\<close> is answered with status 200 and either the
  success body or that failure body.
\<close>

theorem sync_exception_response:
  "handleEnhancedMeetingSync ''POST'' (SourceThrows message) index_rejects s =
     (\<lparr>status = 200, body = SyncFailure ''Failed to sync meetings'' message 0\<rparr>, s) \<and>
   status (fst (handleEnhancedMeetingSync ''POST'' source index_rejects s)) = 200 \<and>
   (is_success (body (fst (handleEnhancedMeetingSync ''POST'' source index_rejects s))) \<or>
    (\<exists>details. body (fst (handleEnhancedMeetingSync ''POST'' source index_rejects s)) =
       SyncFailure ''Failed to sync meetings'' details 0))"
  by (auto simp: handleEnhancedMeetingSync_def syncFailure_def is_success_def Let_def
      split: source_reply.splits option.splits prod.splits)

lemma dec_nat_0: "dec_nat 0 = ''0''"
  by code_simp

text \<open>
  Claim C6, as the code has it. When the source's reply has no transcript list, the
  handler throws \<^verbatim>\<open>No transcripts found\<close> and its \<^verbatim>\<open>catch\<close> answers with status 200 and
  the failure body \<^verbatim>\<open>{error: 'Failed to sync meetings', details: 'No transcripts found',
  count: 0}\<close>. An empty list, by contrast, is answered with the success body and count 0.
\<close>

theorem no_transcript_list_response:
  "handleEnhancedMeetingSync ''POST'' (SourceData None) index_rejects s =
     (\<lparr>status = 200,
       body = SyncFailure ''Failed to sync meetings'' ''No transcripts found'' 0\<rparr>, s) \<and>
   handleEnhancedMeetingSync ''POST'' (SourceData (Some [])) index_rejects s =
     (\<lparr>status = 200,
       body = SyncResult 0 ''Successfully synced 0 meetings with business intelligence'' 0\<rparr>, s)"
  by (simp add: handleEnhancedMeetingSync_def syncFailure_def dec_nat_0 triggerAutoRAGSync_def
      is_fulfilled_def)

text \<open>Claim C6 as stated fails: with no transcript list the body is not the success
  result.\<close>

theorem no_transcript_list_counterexample:
  "\<not> is_success (body (fst (handleEnhancedMeetingSync ''POST'' (SourceData None) False empty_store)))"
  by (simp add: handleEnhancedMeetingSync_def syncFailure_def is_success_def)

subsection \<open>Insight ids\<close>

text \<open>The decimal rendering of a number has no underscore and determines the number, so an
  insight id determines the transcript id and the clock reading it was built from.\<close>

lemma digit_char_eq:
  assumes "a < 10" "b < 10" "char_of (48 + a) = (char_of (48 + b) :: char)"
  shows "a = (b :: nat)"
proof -
  from assms(3) have "of_char (char_of (48 + a) :: char) = (of_char (char_of (48 + b) :: char) :: nat)"
    by simp
  then have "(48 + a) mod 256 = (48 + b) mod 256" by (simp only: of_char_of)
  with assms(1,2) show ?thesis by simp
qed

lemma digit_char_not_underscore:
  assumes "a < (10 :: nat)"
  shows "char_of (48 + a) \<noteq> CHR ''_''"
proof
  assume "char_of (48 + a) = CHR ''_''"
  then have "of_char (char_of (48 + a) :: char) = (of_char CHR ''_'' :: nat)" by simp
  then have "(48 + a) mod 256 = 95" by (simp only: of_char_of) simp
  with assms show False by simp
qed

lemma dec_nat_no_underscore: "CHR ''_'' \<notin> set (dec_nat n)"
proof (induction n rule: dec_nat.induct)
  case (1 n)
  show ?case
  proof (cases "n < 10")
    case True
    then show ?thesis
      using digit_char_not_underscore [of n] by (subst dec_nat.simps) auto
  next
    case False
    have "n mod 10 < 10" by simp
    then have "char_of (48 + n mod 10) \<noteq> CHR ''_''" by (rule digit_char_not_underscore)
    with 1 False show ?thesis
      by (subst dec_nat.simps) auto
  qed
qed

lemma dec_nat_not_Nil: "dec_nat n \<noteq> []"
  by (subst dec_nat.simps) simp

lemma dec_nat_single: "dec_nat n = [c] \<Longrightarrow> n < 10"
proof (rule ccontr)
  assume a: "dec_nat n = [c]" and "\<not> n < 10"
  then have "dec_nat n = dec_nat (n div 10) @ [char_of (48 + n mod 10)]"
    by (subst dec_nat.simps) simp
  with a have "dec_nat (n div 10) = []" by simp
  with dec_nat_not_Nil show False by blast
qed

lemma dec_nat_inject: "dec_nat m = dec_nat n \<Longrightarrow> m = n"
proof (induction m arbitrary: n rule: dec_nat.induct)
  case (1 m)
  show ?case
  proof (cases "m < 10")
    case True
    then have m: "dec_nat m = [char_of (48 + m)]" by (subst dec_nat.simps) simp
    with "1.prems" have "dec_nat n = [char_of (48 + m)]" by simp
    then have "n < 10" by (rule dec_nat_single)
    then have "dec_nat n = [char_of (48 + n)]" by (subst dec_nat.simps) simp
    with m "1.prems" True \<open>n < 10\<close> show ?thesis
      using digit_char_eq [of m n] by simp
  next
    case False
    then have m: "dec_nat m = dec_nat (m div 10) @ [char_of (48 + m mod 10)]"
      by (subst dec_nat.simps) simp
    have "\<not> n < 10"
    proof
      assume "n < 10"
      then have "dec_nat n = [char_of (48 + n)]" by (subst dec_nat.simps) simp
      with "1.prems" have "dec_nat m = [char_of (48 + n)]" by simp
      then have "m < 10" by (rule dec_nat_single)
      with False show False by simp
    qed
    then have n: "dec_nat n = dec_nat (n div 10) @ [char_of (48 + n mod 10)]"
      by (subst dec_nat.simps) simp
    from m n "1.prems" have e: "dec_nat (m div 10) = dec_nat (n div 10)"
      "char_of (48 + m mod 10) = (char_of (48 + n mod 10) :: char)" by simp_all
    from "1.IH" [OF False e(1)] have "m div 10 = n div 10" .
    moreover from e(2) have "m mod 10 = n mod 10"
      by (intro digit_char_eq) simp_all
    ultimately show ?thesis by (metis div_mult_mod_eq)
  qed
qed

lemma split_at_first:
  "c \<notin> set xs \<Longrightarrow> c \<notin> set xs' \<Longrightarrow> xs @ c # ys = xs' @ c # ys' \<Longrightarrow> xs = xs' \<and> ys = ys'"
  by (induction xs arbitrary: xs') (auto simp: append_eq_Cons_conv Cons_eq_append_conv)

lemma insightId_eq_iff:
  "insightId a m = insightId b n \<longleftrightarrow> a = b \<and> m = n"
proof
  assume "insightId a m = insightId b n"
  then have "a @ CHR ''_'' # dec_nat m = b @ CHR ''_'' # dec_nat n"
    by (simp add: insightId_def)
  then have "rev (a @ CHR ''_'' # dec_nat m) = rev (b @ CHR ''_'' # dec_nat n)"
    by (rule arg_cong)
  then have "rev (dec_nat m) @ CHR ''_'' # rev a = rev (dec_nat n) @ CHR ''_'' # rev b"
    by simp
  moreover have "CHR ''_'' \<notin> set (rev (dec_nat m))" "CHR ''_'' \<notin> set (rev (dec_nat n))"
    using dec_nat_no_underscore by simp_all
  ultimately have "rev (dec_nat m) = rev (dec_nat n) \<and> rev a = rev b"
    using split_at_first [of "CHR ''_''" "rev (dec_nat m)" "rev (dec_nat n)" "rev a" "rev b"]
    by blast
  then show "a = b \<and> m = n" using dec_nat_inject by simp
next
  assume "a = b \<and> m = n"
  then show "insightId a m = insightId b n" by simp
qed

subsection \<open>One transcript\<close>

lemma ball_upt_shift:
  "(\<forall>j \<in> set [0..<Suc n]. P (k + j)) \<longleftrightarrow> P k \<and> (\<forall>j \<in> set [0..<n]. P (Suc k + j))"
proof -
  have "(\<forall>j < Suc n. P (k + j)) \<longleftrightarrow> P k \<and> (\<forall>j < n. P (Suc k + j))"
    by (auto simp: less_Suc_eq_0_disj)
  then show ?thesis by (simp only: set_upt atLeastLessThan_iff Ball_def le0 simp_thms)
qed

lemma insertInsights_spec:
  "insertInsights f t pid k items rows = (failed, rows') \<Longrightarrow>
     (\<exists>n \<le> length items.
        rows' = rows @ map (\<lambda>(j, i). insightRow f t pid j i) (enumerate k (take n items)) \<and>
        (failed = None \<longrightarrow> n = length items)) \<and>
     (failed = None \<longleftrightarrow> (\<forall>j \<in> set [0..<length items]. \<not> insight_write_rejects f (k + j)))"
proof (induction items arbitrary: k rows)
  case Nil
  then show ?case by simp
next
  case (Cons i items)
  show ?case
  proof (cases "insight_write_rejects f k")
    case True
    with Cons.prems have "failed = Some (InsightWriteRejected k)" "rows' = rows" by simp_all
    moreover have "\<exists>j \<in> set [0..<length (i # items)]. insight_write_rejects f (k + j)"
      using True by (intro bexI [of _ 0]) simp_all
    ultimately show ?thesis by (intro conjI exI [of _ 0]) auto
  next
    case False
    with Cons.prems
    have r: "insertInsights f t pid (Suc k) items (rows @ [insightRow f t pid k i]) = (failed, rows')"
      by simp
    from Cons.IH [OF r] obtain n where n: "n \<le> length items"
      "rows' = (rows @ [insightRow f t pid k i]) @
         map (\<lambda>(j, i). insightRow f t pid j i) (enumerate (Suc k) (take n items))"
      "failed = None \<longrightarrow> n = length items"
      and e: "failed = None \<longleftrightarrow>
         (\<forall>j \<in> set [0..<length items]. \<not> insight_write_rejects f (Suc k + j))"
      by blast
    have "(\<forall>j \<in> set [0..<length (i # items)]. \<not> insight_write_rejects f (k + j)) \<longleftrightarrow>
          (\<forall>j \<in> set [0..<length items]. \<not> insight_write_rejects f (Suc k + j))"
      using False ball_upt_shift [of "length items" "\<lambda>j. \<not> insight_write_rejects f j" k]
      by (simp only: length_Cons simp_thms)
    with e have "failed = None \<longleftrightarrow>
       (\<forall>j \<in> set [0..<length (i # items)]. \<not> insight_write_rejects f (k + j))" by simp
    moreover have "\<exists>m \<le> length (i # items).
        rows' = rows @ map (\<lambda>(j, i). insightRow f t pid j i) (enumerate k (take m (i # items))) \<and>
        (failed = None \<longrightarrow> m = length (i # items))"
      using n by (intro exI [of _ "Suc n"]) simp
    ultimately show ?thesis by blast
  qed
qed

lemma recordInsights_frame:
  assumes "recordInsights f t bi pid s = (failed, s')"
  shows "meetings s' = meetings s" "projects s' = projects s" "documents s' = documents s"
    "project_dashboard s' = project_dashboard s" "tasks s' = tasks s"
  using assms by (auto simp: recordInsights_def split: option.splits if_splits prod.splits)

lemma recordInsights_rows:
  assumes "recordInsights f t bi pid s = (failed, s')"
  shows "\<exists>n \<le> length (insights bi).
           project_insights s' = project_insights s @
             map (\<lambda>(j, i). insightRow f t (or_else pid []) j i) (enumerate 0 (take n (insights bi))) \<and>
           (\<not> writes_insights pid bi \<longrightarrow> n = 0) \<and>
           (writes_insights pid bi \<and> failed = None \<longrightarrow> n = length (insights bi))"
proof (cases "writes_insights pid bi")
  case False
  with assms have "s' = s"
    by (auto simp: recordInsights_def writes_insights_def truthy_def split: option.splits)
  with False show ?thesis by (intro exI [of _ 0]) simp
next
  case True
  then obtain p where p: "pid = Some p" "p \<noteq> []" "length (insights bi) > 0"
    by (auto simp: writes_insights_def truthy_def split: option.splits)
  obtain fl rows where i: "insertInsights f t p 0 (insights bi) (project_insights s) = (fl, rows)"
    by (cases "insertInsights f t p 0 (insights bi) (project_insights s)")
  with assms p have s': "failed = fl" "project_insights s' = rows"
    by (auto simp: recordInsights_def)
  from insertInsights_spec [OF i] obtain n where n: "n \<le> length (insights bi)"
    "rows = project_insights s @
       map (\<lambda>(j, i). insightRow f t p j i) (enumerate 0 (take n (insights bi)))"
    "fl = None \<longrightarrow> n = length (insights bi)"
    by blast
  show ?thesis
    using n s' p True by (intro exI [of _ n]) (simp add: or_else_def)
qed


lemma syncTranscript_cases:
  obtains
    (early) "\<not> reaches_write (t, f)" "\<not> completes s (t, f)"
      "\<exists>r. syncTranscript f t s = (Rejected r, s)"
  | (wrote) bi failed s2 where "reaches_write (t, f)"
      "asInsight (generateBusinessInsights t (ai f)) = Some bi"
      "recordInsights f t bi (associateTranscriptWithProject (projects s) (title t))
         (recordMeeting f t bi (associateTranscriptWithProject (projects s) (title t)) s) = (failed, s2)"
      "syncTranscript f t s =
         (case failed of
            None \<Rightarrow> publish f t bi (associateTranscriptWithProject (projects s) (title t)) s2
          | Some r \<Rightarrow> (Rejected r, s2))"
proof (cases "reaches_write (t, f)")
  case False
  then have "\<not> completes s (t, f)"
    by (auto simp: reaches_write_def completes_def split: option.splits)
  moreover from False have "\<exists>r. syncTranscript f t s = (Rejected r, s)"
    by (auto simp: reaches_write_def syncTranscript_def Let_def split: option.splits)
  ultimately show ?thesis using False early by blast
next
  case True
  then obtain bi where bi: "asInsight (generateBusinessInsights t (ai f)) = Some bi"
    by (auto simp: reaches_write_def)
  let ?pid = "associateTranscriptWithProject (projects s) (title t)"
  obtain failed s2 where r: "recordInsights f t bi ?pid (recordMeeting f t bi ?pid s) = (failed, s2)"
    by (cases "recordInsights f t bi ?pid (recordMeeting f t bi ?pid s)")
  have "syncTranscript f t s =
         (case failed of None \<Rightarrow> publish f t bi ?pid s2 | Some r \<Rightarrow> (Rejected r, s2))"
    using True bi r by (simp add: reaches_write_def syncTranscript_def Let_def)
  with True bi r show ?thesis using wrote by blast
qed

lemma publish_frame:
  assumes "publish f t bi pid s = (r, s')"
  shows "meetings s' = meetings s" "projects s' = projects s"
    "project_insights s' = project_insights s"
    "project_dashboard s' = project_dashboard s" "tasks s' = tasks s"
  using assms by (auto simp: publish_def Let_def split: if_splits)


lemma recordMeeting_simps:
  "meetings (recordMeeting f t bi pid s) =
     insertOrReplace (meetingRow t bi pid (created_at_now f)) (meetings s)"
  "projects (recordMeeting f t bi pid s) = projects s"
  "project_insights (recordMeeting f t bi pid s) = project_insights s"
  "documents (recordMeeting f t bi pid s) = documents s"
  "project_dashboard (recordMeeting f t bi pid s) = project_dashboard s"
  "tasks (recordMeeting f t bi pid s) = tasks s"
  by (simp_all add: recordMeeting_def)

lemma syncTranscript_projects:
  "projects (snd (syncTranscript f t s)) = projects s"
proof (cases rule: syncTranscript_cases [of t f s])
  case early
  then show ?thesis by auto
next
  case (wrote bi failed s2)
  from recordInsights_frame(2) [OF wrote(3)] have p: "projects s2 = projects s"
    by (simp add: recordMeeting_simps)
  show ?thesis
  proof (cases failed)
    case None
    obtain r s3 where q: "publish f t bi (associateTranscriptWithProject (projects s) (title t)) s2 = (r, s3)"
      by (cases "publish f t bi (associateTranscriptWithProject (projects s) (title t)) s2")
    with wrote(4) None publish_frame(2) [OF q] p show ?thesis by simp
  next
    case (Some r)
    with wrote(4) p show ?thesis by simp
  qed
qed



lemma syncTranscript_insights:
  "\<exists>rows. project_insights (snd (syncTranscript f t s)) = project_insights s @ rows"
proof (cases rule: syncTranscript_cases [of t f s])
  case early
  then show ?thesis by auto
next
  case (wrote bi failed s2)
  let ?pid = "associateTranscriptWithProject (projects s) (title t)"
  from recordInsights_rows [OF wrote(3)]
  obtain rows where m: "project_insights s2 = project_insights s @ rows"
    by (auto simp: recordMeeting_simps)
  show ?thesis
  proof (cases failed)
    case None
    obtain r s3 where q: "publish f t bi ?pid s2 = (r, s3)"
      by (cases "publish f t bi ?pid s2")
    with wrote None publish_frame(3) [OF q] m show ?thesis by simp
  next
    case (Some r)
    with wrote m show ?thesis by simp
  qed
qed



lemma settleAll_projects: "settleAll batch s = (rs, s') \<Longrightarrow> projects s' = projects s"
proof (induction batch arbitrary: s rs s')
  case Nil
  then show ?case by simp
next
  case (Cons tf batch)
  obtain t f where tf: "tf = (t, f)" by (cases tf)
  obtain r s1 where a: "syncTranscript f t s = (r, s1)" by (cases "syncTranscript f t s")
  obtain rs1 s2 where b: "settleAll batch s1 = (rs1, s2)" by (cases "settleAll batch s1")
  from Cons.prems tf a b have "s' = s2" by simp
  with Cons.IH [OF b] syncTranscript_projects [of f t s] a show ?case by simp
qed













text \<open>Without a project id, or with an empty one, a run inserts no insight row.\<close>

lemma recordInsights_without_project:
  "\<not> truthy pid \<Longrightarrow> recordInsights f t bi pid s = (None, s)"
  by (auto simp: recordInsights_def truthy_def split: option.splits)

lemma syncTranscript_without_project:
  assumes "\<not> truthy (associateTranscriptWithProject (projects s) (title t))"
  shows "project_insights (snd (syncTranscript f t s)) = project_insights s"
proof (cases rule: syncTranscript_cases [of t f s])
  case early
  then show ?thesis by auto
next
  case (wrote bi failed s2)
  let ?pid = "associateTranscriptWithProject (projects s) (title t)"
  from wrote(3) recordInsights_without_project [OF assms]
  have e: "failed = None" "s2 = recordMeeting f t bi ?pid s" by simp_all
  obtain r s3 where q: "publish f t bi ?pid s2 = (r, s3)"
    by (cases "publish f t bi ?pid s2")
  with wrote(4) e publish_frame(3) [OF q] show ?thesis
    by (simp add: recordMeeting_simps)
qed

subsection \<open>The batch\<close>






text \<open>
  Claim C8 at a failing input: the sample transcript, associated with project \<open>p3\<close>, a
  reply with two insights, and a clock that reads 1000 at both inserts. The two rows get the
  same id \<^verbatim>\<open>insight_t1_1000\<close>.
\<close>

theorem same_millisecond_ids_collide:
  "map row_id (project_insights
     (snd (syncTranscript frozen_clock_fate example_transcript example_store))) =
     [''insight_t1_1000'', ''insight_t1_1000'']"
  by code_simp

subsection \<open>The project dashboard\<close>










end
